theory Spec2Isabelle
  imports Main "HOL-Library.Sublist" "HOL-Library.List_Lexorder" "HOL-Library.Word"
begin

section \<open>Python strings\<close>

text \<open>
  A Python \<open>str\<close> is a sequence of Unicode code points, so a string is modelled as a list
  of code points (natural numbers). \<open>str.strip()\<close> depends on this reading: it removes
  every code point for which \<open>str.isspace\<close> holds, and some of them lie beyond ASCII.
  \<open>u\<close> turns an ASCII literal into such a string; code points above 127 are written as
  numbers (186 is the masculine ordinal indicator of "3o Ano", 227 is a-tilde, 237 is
  i-acute, and so on).
\<close>

type_synonym pystr = "nat list"

definition u :: "string \<Rightarrow> pystr" where
  "u s = map of_char s"

text \<open>\<open>str.isspace\<close> of one code point, as CPython's Unicode database has it.\<close>

definition isspace :: "nat \<Rightarrow> bool" where
  "isspace c =
     ((9 \<le> c \<and> c \<le> 13) \<or> (28 \<le> c \<and> c \<le> 32) \<or> c = 133 \<or> c = 160 \<or> c = 5760 \<or>
      (8192 \<le> c \<and> c \<le> 8202) \<or> c = 8232 \<or> c = 8233 \<or> c = 8239 \<or> c = 8287 \<or> c = 12288)"

text \<open>\<open>s.strip()\<close>: leading and trailing whitespace removed.\<close>

definition strip :: "pystr \<Rightarrow> pystr" where
  "strip s = rev (dropWhile isspace (rev (dropWhile isspace s)))"

text \<open>\<open>sub in s\<close> for strings: \<open>sub\<close> occurs in \<open>s\<close> at some position.\<close>

fun contains :: "pystr \<Rightarrow> pystr \<Rightarrow> bool" where
  "contains sub [] = (sub = [])"
| "contains sub (c # cs) = (prefix sub (c # cs) \<or> contains sub cs)"

text \<open>
  \<open>s.split(sep)[0]\<close>: the part of \<open>s\<close> before the first occurrence of \<open>sep\<close>, all of
  \<open>s\<close> when there is none. (The separator of the source is the non-empty literal "|";
  Python raises ValueError for an empty one.)
\<close>

fun split_first :: "pystr \<Rightarrow> pystr \<Rightarrow> pystr" where
  "split_first sep [] = []"
| "split_first sep (c # cs) = (if prefix sep (c # cs) then [] else c # split_first sep cs)"

text \<open>
  \<open>s.rsplit(sep, 1)[-1]\<close>: \<open>rsplit\<close> searches from the right, so with at most one split
  the last piece is what follows the rightmost occurrence of \<open>sep\<close>; without an
  occurrence the only piece is \<open>s\<close> itself. \<open>rfind_after\<close> looks at the later
  positions first.
\<close>

fun rfind_after :: "pystr \<Rightarrow> pystr \<Rightarrow> pystr option" where
  "rfind_after sep [] = None"
| "rfind_after sep (c # cs) =
     (case rfind_after sep cs of
        Some r \<Rightarrow> Some r
      | None \<Rightarrow> if prefix sep (c # cs) then Some (drop (length sep) (c # cs)) else None)"

definition rsplit1_last :: "pystr \<Rightarrow> pystr \<Rightarrow> pystr" where
  "rsplit1_last sep s = (case rfind_after sep s of Some r \<Rightarrow> r | None \<Rightarrow> s)"

text \<open>
  \<open>s.replace(old, new)\<close>, which is what \<open>Series.str.replace(old, new, regex=False)\<close>
  applies to every cell: the occurrences of \<open>old\<close> are replaced from left to right.
  Both patterns of the source are single characters.
\<close>

fun str_replace :: "pystr \<Rightarrow> pystr \<Rightarrow> pystr \<Rightarrow> pystr" where
  "str_replace old new [] = []"
| "str_replace old new (c # cs) =
     (if old \<noteq> [] \<and> prefix old (c # cs)
      then new @ str_replace old new (drop (length old) (c # cs))
      else c # str_replace old new cs)"

text \<open>\<open>str(n)\<close> of a Python integer: decimal digits, a minus sign when negative.\<close>

fun str_of_nat :: "nat \<Rightarrow> pystr" where
  "str_of_nat n = (if n < 10 then [48 + n] else str_of_nat (n div 10) @ [48 + n mod 10])"

definition str_of_int :: "int \<Rightarrow> pystr" where
  "str_of_int i = (if i < 0 then 45 # str_of_nat (nat (- i)) else str_of_nat (nat i))"

section \<open>Cells and tables\<close>

text \<open>
  What a cell of a DataFrame read by \<open>pd.read_csv\<close> holds: a missing value (NaN; None
  is kept apart because its string form differs), an integer of an int64 column, or the
  text of an object column. Cells of float64 columns are not modelled; the normaliser
  below only ever reads the string form of a cell.
\<close>

datatype cell = NaN | NoneV | IntV int | StrV pystr

text \<open>\<open>pd.isna\<close> of a scalar.\<close>

fun isna :: "cell \<Rightarrow> bool" where
  "isna NaN = True"
| "isna NoneV = True"
| "isna _ = False"

text \<open>\<open>str(x)\<close>, which is also what \<open>Series.astype(str)\<close> stores for each cell.\<close>

fun astype_str :: "cell \<Rightarrow> pystr" where
  "astype_str NaN = u ''nan''"
| "astype_str NoneV = u ''None''"
| "astype_str (IntV i) = str_of_int i"
| "astype_str (StrV s) = s"

text \<open>
  A table is an ordered list of rows under a list of column names; a row gives the cell
  of every column (only its values at the table's columns matter).
\<close>

type_synonym row = "pystr \<Rightarrow> cell"

record dataframe =
  columns :: "pystr list"
  rows :: "row list"

datatype error = KeyError | TypeError | ParserError | IntCastingNaNError

text \<open>\<open>df[col]\<close>: the cells of a column, KeyError when there is no such column.\<close>

definition coluna :: "dataframe \<Rightarrow> pystr \<Rightarrow> error + cell list" where
  "coluna df col =
     (if col \<in> set (columns df) then Inr (map (\<lambda>r. r col) (rows df)) else Inl KeyError)"

section \<open>extrair\_etapa\<close>

definition TOTAL_SECRETARIA :: pystr where
  "TOTAL_SECRETARIA = u ''TOTAL SECRETARIA''"

definition Total_escola :: pystr where
  "Total_escola = u ''Total escola''"

definition extrair_etapa :: "cell \<Rightarrow> pystr" where
  "extrair_etapa desc =
     (if isna desc then []
      else
        let s = strip (astype_str desc) in
        if contains (u ''|'') s then
          (let parte = strip (split_first (u ''|'') s) in
           if contains (u '' - '') parte
           then strip (rsplit1_last (u '' - '') parte)
           else parte)
        else if s = TOTAL_SECRETARIA then TOTAL_SECRETARIA
        else Total_escola)"

section \<open>The numeric normaliser of carregar\_csv\<close>

text \<open>
  The source normalises a measure column with
  \<^verbatim>\<open>pd.to_numeric(df[col].astype(str).str.replace(".", "", regex=False)
      .str.replace("-", "0", regex=False), errors="coerce").fillna(0).astype(int)\<close>.
  pandas converts the column as a whole; the model follows the chain for each cell on its
  own, which is what pandas computes for a column that holds the one cell, and for every
  column whose integers stay below 2^53 (a column with a missing value is held as
  float64 before the final cast).
\<close>

definition isdigit :: "nat \<Rightarrow> bool" where
  "isdigit c = (48 \<le> c \<and> c \<le> 57)"

text \<open>The value of a string of decimal digits, as \<open>int(s)\<close> reads it.\<close>

definition nat_of_digits :: "pystr \<Rightarrow> nat" where
  "nat_of_digits s = foldl (\<lambda>a c. 10 * a + (c - 48)) 0 s"

text \<open>What \<open>pd.to_numeric\<close> makes of one string.\<close>

datatype numeric = Finite int | NotANumber | Infinity

definition UINT64_MAX :: nat where
  "UINT64_MAX = 18446744073709551615"

definition lower :: "nat \<Rightarrow> nat" where
  "lower c = (if 65 \<le> c \<and> c \<le> 90 then c + 32 else c)"

text \<open>The parser of \<open>pd.to_numeric\<close> reads a string as a C string: up to its first NUL.\<close>

definition c_str :: "pystr \<Rightarrow> pystr" where
  "c_str s = takeWhile (\<lambda>c. c \<noteq> 0) s"

text \<open>
  The spellings of infinity that the parser of \<open>pd.to_numeric\<close> accepts, whatever the
  case of the letters.
\<close>

definition is_inf_literal :: "pystr \<Rightarrow> bool" where
  "is_inf_literal s =
     (map lower s \<in> set [u ''inf'', u ''+inf'', u ''-inf'',
                          u ''infinity'', u ''+infinity'', u ''-infinity''])"

text \<open>
  The characters a number can be written with: digits, the decimal point, the signs, the
  exponent marker and the ASCII whitespace that the parser skips around a number.
\<close>

definition numeric_char :: "nat \<Rightarrow> bool" where
  "numeric_char c =
     (isdigit c \<or> c = 46 \<or> c = 43 \<or> c = 45 \<or> c = 101 \<or> c = 69 \<or> c = 32 \<or> (9 \<le> c \<and> c \<le> 13))"

text \<open>
  \<open>pd.to_numeric(..., errors="coerce")\<close> on one string. The empty string is missing. A
  string of at most 20 decimal digits (no integer of uint64 has more) within the range
  of uint64 is that integer. A spelling of infinity is infinite. A string with a
  character that no number is written with is not a number, which \<open>errors="coerce"\<close>
  turns into NaN. Every other string (signs, exponents, surrounding blanks, longer
  strings of digits, integers beyond uint64) goes through the floating-point parser of
  pandas, which is not modelled: it is the parameter \<open>float_literal\<close>, and every
  property below holds for each such parser. For a \<open>Finite\<close> result of
  \<open>float_literal\<close> the integer stands for the int64 that the final cast produces from
  the parsed float.
\<close>

definition to_numeric :: "(pystr \<Rightarrow> numeric) \<Rightarrow> pystr \<Rightarrow> numeric" where
  "to_numeric float_literal s =
     (if s = [] then NotANumber
      else if length s \<le> 20 \<and> list_all isdigit s \<and> nat_of_digits s \<le> UINT64_MAX
        then Finite (int (nat_of_digits s))
      else if is_inf_literal (c_str s) then Infinity
      else if list_ex (\<lambda>c. \<not> numeric_char c) (c_str s) then NotANumber
      else float_literal s)"

text \<open>
  A parser of floating-point literals that rejects every string. It stands for the
  parameter in the closed examples below, none of which reaches the parser.
\<close>

definition rejeita :: "pystr \<Rightarrow> numeric" where
  "rejeita s = NotANumber"

text \<open>\<open>.fillna(0)\<close>.\<close>

fun fillna :: "int \<Rightarrow> numeric \<Rightarrow> numeric" where
  "fillna v NotANumber = Finite v"
| "fillna v x = x"

text \<open>
  \<open>.astype(int)\<close>: the result is an int64. A non-finite value raises IntCastingNaNError
  ("Cannot convert non-finite values (NA or inf) to integer"); an integer of the upper
  half of uint64 wraps around, as NumPy's cast from uint64 to int64 does.
\<close>

fun astype_int :: "numeric \<Rightarrow> error + int" where
  "astype_int (Finite v) = Inr (sint (word_of_int v :: 64 word))"
| "astype_int NotANumber = Inl IntCastingNaNError"
| "astype_int Infinity = Inl IntCastingNaNError"

text \<open>The two replacements: \<open>.str.replace(".", "")\<close> and \<open>.str.replace("-", "0")\<close>.\<close>

definition limpar :: "pystr \<Rightarrow> pystr" where
  "limpar s = str_replace (u ''-'') (u ''0'') (str_replace (u ''.'') [] s)"

definition normalize_cell :: "(pystr \<Rightarrow> numeric) \<Rightarrow> cell \<Rightarrow> error + int" where
  "normalize_cell float_literal c =
     astype_int (fillna 0 (to_numeric float_literal (limpar (astype_str c))))"

section \<open>carregar\_csv\<close>

definition Mat_Total :: pystr where
  "Mat_Total = u ''Mat. Total''"

definition Nao_Enturmados :: pystr where
  "Nao_Enturmados = u ''N'' @ [227] @ u ''o Enturmados''"

definition Enturmados :: pystr where
  "Enturmados = u ''Enturmados''"

definition Quantidade_de_Turmas :: pystr where
  "Quantidade_de_Turmas = u ''Quantidade de Turmas''"

definition Mat_Presencial :: pystr where
  "Mat_Presencial = u ''Mat. Presencial''"

definition Mat_Semipresencial :: pystr where
  "Mat_Semipresencial = u ''Mat. Semipresencial''"




text \<open>
  The file system as the loader sees it: at a path there is no file, a file on which
  \<open>pd.read_csv\<close> raises, or a file that \<open>pd.read_csv\<close> reads into a table.
\<close>

datatype 'a arquivo = Absent | Unreadable | Readable 'a





section \<open>The Etapa column and the filters of main\<close>

definition Secretaria :: pystr where
  "Secretaria = u ''Secretaria''"

definition Descricao :: pystr where
  "Descricao = u ''Descricao''"

definition Etapa :: pystr where
  "Etapa = u ''Etapa''"

definition Municipio :: pystr where
  "Municipio = u ''Municipio''"

definition Status :: pystr where
  "Status = u ''Status''"

definition Todos_os_Municipios :: pystr where
  "Todos_os_Municipios = u ''Todos os Munic'' @ [237] @ u ''pios''"


text \<open>
  \<open>df[col] == v\<close> for one cell (a missing value equals nothing) and
  \<open>df[col].isin(vs)\<close> for one cell.
\<close>

definition cell_eq :: "cell \<Rightarrow> cell \<Rightarrow> bool" where
  "cell_eq a b = (\<not> isna a \<and> a = b)"

definition isin :: "cell list \<Rightarrow> cell \<Rightarrow> bool" where
  "isin vs c = (c \<in> set vs)"

text \<open>\<open>mask &= df[col].<test>\<close>, KeyError when the column is missing.\<close>

definition mask_and :: "dataframe \<Rightarrow> pystr \<Rightarrow> (cell \<Rightarrow> bool) \<Rightarrow> bool list \<Rightarrow> error + bool list" where
  "mask_and df col test msk =
     (case coluna df col of
        Inl e \<Rightarrow> Inl e
      | Inr cs \<Rightarrow> Inr (map2 (\<lambda>m c. m \<and> test c) msk cs))"

text \<open>
  The block "Aplicar filtros" of \<open>main\<close>: \<open>sel_municipio\<close> is the selected municipality
  (or the entry "Todos os Municipios"), \<open>sel_etapas\<close> and \<open>sel_status\<close> are the selected
  values; \<open>df[mask]\<close> keeps the rows whose mask is true, in order.
\<close>

definition aplicar_filtros :: "dataframe \<Rightarrow> cell \<Rightarrow> cell list \<Rightarrow> cell list \<Rightarrow> error + dataframe" where
  "aplicar_filtros df sel_municipio sel_etapas sel_status =
     (case (if sel_municipio \<noteq> StrV Todos_os_Municipios
            then mask_and df Municipio (\<lambda>c. cell_eq c sel_municipio) (replicate (length (rows df)) True)
            else Inr (replicate (length (rows df)) True)) of
        Inl e \<Rightarrow> Inl e
      | Inr mask1 \<Rightarrow>
          (case (if sel_etapas \<noteq> [] then mask_and df Etapa (isin sel_etapas) mask1 else Inr mask1) of
             Inl e \<Rightarrow> Inl e
           | Inr mask2 \<Rightarrow>
               (case (if sel_status \<noteq> [] then mask_and df Status (isin sel_status) mask2 else Inr mask2) of
                  Inl e \<Rightarrow> Inl e
                | Inr mask3 \<Rightarrow> Inr (df\<lparr>rows := map fst (filter snd (zip (rows df) mask3))\<rparr>))))"


section \<open>The exports\<close>

text \<open>
  What an export reads besides its arguments: the marker file \<open>ultima_extracao.txt\<close>
  and the clock (\<open>datetime.now()\<close>).
\<close>

record datetime =
  year :: nat
  month :: nat
  day :: nat
  hour :: nat
  minute :: nat
  second :: nat

record env =
  log_file :: "pystr arquivo"
  now :: datetime

definition pad2 :: "nat \<Rightarrow> pystr" where
  "pad2 n = (if n < 10 then 48 # str_of_nat n else str_of_nat n)"

text \<open>\<open>strftime("%d/%m/%Y as %H:%M")\<close>; 224 is the a-grave of the source's format.\<close>

definition strftime :: "datetime \<Rightarrow> pystr" where
  "strftime t =
     pad2 (day t) @ u ''/'' @ pad2 (month t) @ u ''/'' @ str_of_nat (year t) @ u '' '' @ [224] @
     u ''s '' @ pad2 (hour t) @ u '':'' @ pad2 (minute t)"

text \<open>
  The extraction date: the stripped text of the marker file, the empty string when the
  file is missing or reading it raises.
\<close>

definition data_extracao :: "env \<Rightarrow> pystr" where
  "data_extracao e = (case log_file e of Readable t \<Rightarrow> strip t | _ \<Rightarrow> [])"

datatype fill = Yellow | Red

definition Atencao :: pystr where
  "Atencao = u ''Aten'' @ [231, 227] @ u ''o''"

definition Critica :: pystr where
  "Critica = u ''Cr'' @ [237] @ u ''tica''"

text \<open>The fill of a data row, from the cell of its Status column.\<close>

definition status_fill :: "cell \<Rightarrow> fill option" where
  "status_fill status =
     (if status = StrV Atencao then Some Yellow
      else if status = StrV Critica then Some Red
      else None)"

text \<open>
  The content of a workbook: the cells written to the sheet of information (reference
  and text, in the order of the assignments), and the report sheet with its header
  row, its data rows and the fill of each data row. Column widths and the style of the
  header, which the source computes from the table alone, are left out.
\<close>

record workbook =
  informacoes :: "(pystr \<times> pystr) list"
  cabecalho :: "pystr list"
  linhas :: "cell list list"
  preenchimentos :: "fill option list"

definition folha_informacoes :: "pystr \<Rightarrow> pystr \<Rightarrow> pystr \<Rightarrow> pystr list \<Rightarrow> (pystr \<times> pystr) list" where
  "folha_informacoes titulo extracao agora filtros_aplicados =
     [(u ''A1'', titulo),
      (u ''A3'', u ''Data de Extra'' @ [231, 227] @ u ''o dos Dados:''),
      (u ''B3'', if extracao \<noteq> [] then extracao else u ''N'' @ [227] @ u ''o informada''),
      (u ''A5'', u ''Data do Relat'' @ [243] @ u ''rio:''),
      (u ''B5'', agora)] @
     (if filtros_aplicados \<noteq> [] then
        (u ''A7'', u ''Filtros Aplicados:'') #
        map (\<lambda>(idx, filtro). (u ''A'' @ str_of_nat idx, [8226, 32] @ filtro))
          (zip [8 ..< 8 + length filtros_aplicados] filtros_aplicados)
      else [])"

text \<open>
  The workbook that both exports build (the source repeats the code in each of them,
  with its own title).
\<close>

definition planilha :: "pystr \<Rightarrow> env \<Rightarrow> dataframe \<Rightarrow> pystr list \<Rightarrow> workbook" where
  "planilha titulo e df filtros_aplicados =
     \<lparr>informacoes = folha_informacoes titulo (data_extracao e) (strftime (now e)) filtros_aplicados,
      cabecalho = columns df,
      linhas = map (\<lambda>r. map r (columns df)) (rows df),
      preenchimentos =
        (if Status \<in> set (columns df) then map (\<lambda>r. status_fill (r Status)) (rows df)
         else replicate (length (rows df)) None)\<rparr>"


text \<open>\<open>Series.dropna()\<close> and \<open>Series.unique()\<close> (first occurrences, in order).\<close>

definition dropna :: "cell list \<Rightarrow> cell list" where
  "dropna cs = filter (\<lambda>c. \<not> isna c) cs"

definition unique :: "'a list \<Rightarrow> 'a list" where
  "unique xs = rev (remdups (rev xs))"

text \<open>
  \<open>sorted(municipios)\<close>: Python orders strings by code point and integers by value, and
  raises TypeError when it has to compare a string with an integer.
\<close>

fun the_strs :: "cell list \<Rightarrow> pystr list option" where
  "the_strs [] = Some []"
| "the_strs (StrV s # cs) = map_option ((#) s) (the_strs cs)"
| "the_strs (c # cs) = None"

fun the_ints :: "cell list \<Rightarrow> int list option" where
  "the_ints [] = Some []"
| "the_ints (IntV i # cs) = map_option ((#) i) (the_ints cs)"
| "the_ints (c # cs) = None"

definition sorted_cells :: "cell list \<Rightarrow> error + cell list" where
  "sorted_cells cs =
     (case the_strs cs of
        Some ss \<Rightarrow> Inr (map StrV (sort ss))
      | None \<Rightarrow>
          (case the_ints cs of
             Some is \<Rightarrow> Inr (map IntV (sort is))
           | None \<Rightarrow> Inl TypeError))"

text \<open>
  \<open>gerar_xlsx_por_municipio\<close>: the archive is the list of its entries, each a name and
  a workbook, in the order of the calls to \<open>writestr\<close>.
\<close>

definition gerar_xlsx_por_municipio ::
  "env \<Rightarrow> dataframe \<Rightarrow> pystr list \<Rightarrow> error + (pystr \<times> workbook) list" where
  "gerar_xlsx_por_municipio e df filtros_aplicados =
     (case coluna df Municipio of
        Inl err \<Rightarrow> Inl err
      | Inr cs \<Rightarrow>
          (case sorted_cells (unique (dropna cs)) of
             Inl err \<Rightarrow> Inl err
           | Inr municipios \<Rightarrow>
               Inr (map (\<lambda>municipio.
                           (astype_str municipio @ u ''.xlsx'',
                            planilha (u ''Relat'' @ [243] @ u ''rio SIGE - '' @ astype_str municipio) e
                              (df\<lparr>rows := filter (\<lambda>r. cell_eq (r Municipio) municipio) (rows df)\<rparr>)
                              filtros_aplicados))
                      municipios)))"

section \<open>Notions of the specification\<close>

text \<open>"The text contains \<open>sub\<close>": \<open>sub\<close> occurs somewhere in \<open>s\<close>.\<close>

definition occurs :: "pystr \<Rightarrow> pystr \<Rightarrow> bool" where
  "occurs sub s = (\<exists>a b. s = a @ sub @ b)"


text \<open>
  A non-negative integer written with "." between its groups of three digits, as the
  specification's \<open>format_with_dots\<close>: 1234567 is written "1.234.567".
\<close>

definition pad3 :: "nat \<Rightarrow> pystr" where
  "pad3 n = [48 + n div 100, 48 + n div 10 mod 10, 48 + n mod 10]"

fun format_with_dots :: "nat \<Rightarrow> pystr" where
  "format_with_dots n =
     (if n < 1000 then str_of_nat n
      else format_with_dots (n div 1000) @ u ''.'' @ pad3 (n mod 1000))"

section \<open>Notions used to state the properties\<close>












definition tabela_codigos :: dataframe where
  "tabela_codigos =
     \<lparr>columns = [Municipio, Status],
      rows = [(\<lambda>col. NaN)(Municipio := IntV 10, Status := StrV (u ''Normal'')),
              (\<lambda>col. NaN)(Municipio := IntV 9, Status := StrV (u ''Normal''))]\<rparr>"

text \<open>
  Environments of an export: the same marker file one minute apart, and a missing and an
  unreadable marker file within the same minute.
\<close>

definition env_exemplo :: env where
  "env_exemplo =
     \<lparr>log_file = Readable (u ''01/02/2024 08:15''),
      now = \<lparr>year = 2024, month = 2, day = 1, hour = 10, minute = 30, second = 0\<rparr>\<rparr>"




section \<open>Example data\<close>

text \<open>
  The row of the specification's end-to-end scenario, as a table of one row. The cells
  that the file writes as "1.200" and "-" are text; 1200 is an integer cell.
\<close>

definition terceiro_ano :: pystr where
  "terceiro_ano = u ''3'' @ [186] @ u '' Ano''"

definition linha_cenario :: row where
  "linha_cenario =
     (\<lambda>col. NaN)
       (Secretaria := StrV (u ''X''),
        Municipio := StrV (u ''Y''),
        Descricao := StrV (u ''A - '' @ terceiro_ano),
        Mat_Total := StrV (u ''1.200''),
        Nao_Enturmados := StrV (u ''-''),
        Enturmados := IntV 1200,
        Status := StrV (u ''Normal''))"

definition tabela_cenario :: dataframe where
  "tabela_cenario =
     \<lparr>columns = [Secretaria, Municipio, Descricao, Mat_Total, Nao_Enturmados, Enturmados, Status],
      rows = [linha_cenario]\<rparr>"

section \<open>Evaluation rules\<close>

lemmas column_names =
  Mat_Total_def Nao_Enturmados_def Enturmados_def Quantidade_de_Turmas_def Mat_Presencial_def
  Mat_Semipresencial_def Secretaria_def Descricao_def Etapa_def Municipio_def Status_def

lemmas literals =
  u_def terceiro_ano_def Todos_os_Municipios_def Total_escola_def TOTAL_SECRETARIA_def

lemmas normalize_rules =
  normalize_cell_def limpar_def to_numeric_def isdigit_def nat_of_digits_def UINT64_MAX_def
  is_inf_literal_def lower_def numeric_char_def str_of_int_def c_str_def str_of_nat.simps

text \<open>
  The equations of \<open>str_of_nat\<close> and \<open>format_with_dots\<close> are unfolded where a proof asks
  for them.
\<close>

declare str_of_nat.simps [simp del] format_with_dots.simps [simp del]

section \<open>The numeric normaliser: properties\<close>

lemma str_replace_single:
  "str_replace [c] new s = concat (map (\<lambda>x. if x = c then new else [x]) s)"
  by (induction s) auto

lemma limpar_eq: "limpar s = map (\<lambda>c. if c = 45 then 48 else c) (filter (\<lambda>c. c \<noteq> 46) s)"
proof -
  have 1: "str_replace [46] [] s = filter (\<lambda>c. c \<noteq> 46) s"
    unfolding str_replace_single by (induction s) auto
  have 2: "str_replace [45] [48] t = map (\<lambda>c. if c = 45 then 48 else c) t" for t :: pystr
    unfolding str_replace_single by (induction t) auto
  show ?thesis by (simp add: limpar_def u_def 1 2)
qed


















lemma set_c_str: "set (c_str s) \<subseteq> set s"
  by (auto simp: c_str_def dest: set_takeWhileD)

lemma c_str_limpar: "c_str (limpar s) = limpar (c_str s)"
  unfolding limpar_eq c_str_def by (induction s) auto

lemma normalize_inf_literal:
  assumes "is_inf_literal (c_str (limpar (astype_str c)))"
  shows "normalize_cell fl c = Inl IntCastingNaNError"
proof -
  let ?s = "limpar (astype_str c)"
  from assms have l: "map lower (c_str ?s) \<in> set [u ''inf'', u ''+inf'', u ''-inf'',
                          u ''infinity'', u ''+infinity'', u ''-infinity'']"
    by (simp add: is_inf_literal_def)
  then have "\<exists>c \<in> set (map lower (c_str ?s)). c = 110" by (auto simp: u_def)
  then obtain x where "x \<in> set (c_str ?s)" and x: "lower x = 110" by auto
  with set_c_str have xs: "x \<in> set ?s" by blast
  then have ne: "?s \<noteq> []" by auto
  from x have "\<not> isdigit x" by (auto simp: lower_def isdigit_def split: if_splits)
  with xs have "\<not> list_all isdigit ?s" by (auto simp: list_all_iff)
  with ne assms have "to_numeric fl ?s = Infinity" by (simp add: to_numeric_def)
  then show ?thesis by (simp add: normalize_cell_def)
qed

lemma normalize_examples:
  "normalize_cell fl (StrV (u ''1.234'')) = Inr 1234"
  "normalize_cell fl (StrV (u ''-'')) = Inr 0"
  "normalize_cell fl NaN = Inr 0"
  "normalize_cell fl NoneV = Inr 0"
  "normalize_cell fl (StrV []) = Inr 0"
  "normalize_cell fl (StrV (u ''1-2'')) = Inr 102"
  "normalize_cell fl (StrV (u ''-1.234'')) = Inr 1234"
  "normalize_cell fl (StrV (u ''inf'')) = Inl IntCastingNaNError"
  by (simp_all add: normalize_rules u_def)






lemma limpar_keeps:
  assumes "x \<in> set s" and "x \<noteq> 46" and "x \<noteq> 45"
  shows "x \<in> set (limpar s)"
proof -
  let ?f = "\<lambda>c::nat. if c = 45 then 48 else c"
  from assms(1,2) have "x \<in> set (filter (\<lambda>c. c \<noteq> 46) s)" by simp
  then have "?f x \<in> ?f ` set (filter (\<lambda>c. c \<noteq> 46) s)" by (rule imageI)
  with assms(3) have "x \<in> ?f ` set (filter (\<lambda>c. c \<noteq> 46) s)" by simp
  then show ?thesis by (simp only: limpar_eq set_map)
qed

text \<open>
  C5 (as amended). A cell whose string form has, before any NUL, a character that no
  number is written with (anything but a digit, ".", "-", "+", "e", "E" and ASCII
  whitespace), and whose cleaned text does not spell infinity, is normalised to 0, with
  or without a "." in it. A dash is not such a character: it is replaced by the digit 0.
\<close>

theorem outros_caracteres:
  "list_ex (\<lambda>x. \<not> numeric_char x) (c_str (astype_str c)) \<and>
   \<not> is_inf_literal (c_str (limpar (astype_str c))) \<longrightarrow>
     normalize_cell fl c = Inr 0"
proof (intro impI, elim conjE)
  let ?s = "limpar (astype_str c)"
  assume "list_ex (\<lambda>x. \<not> numeric_char x) (c_str (astype_str c))"
    and ni: "\<not> is_inf_literal (c_str ?s)"
  then obtain x where x: "x \<in> set (c_str (astype_str c))" "\<not> numeric_char x"
    by (auto simp: list_ex_iff)
  then have "x \<noteq> 46" "x \<noteq> 45" "\<not> isdigit x" by (auto simp: numeric_char_def)
  with x have k: "x \<in> set (c_str ?s)" by (simp add: c_str_limpar limpar_keeps)
  with set_c_str have "x \<in> set ?s" by blast
  then have ne: "?s \<noteq> []" and nd: "\<not> list_all isdigit ?s"
    using \<open>\<not> isdigit x\<close> by (auto simp: list_all_iff)
  from k x(2) have ex: "list_ex (\<lambda>x. \<not> numeric_char x) (c_str ?s)" by (auto simp: list_ex_iff)
  from ne nd ni ex have "to_numeric fl ?s = NotANumber" by (simp add: to_numeric_def)
  then show "normalize_cell fl c = Inr 0" by (simp add: normalize_cell_def)
qed

theorem outros_caracteres_witness:
  "list_ex (\<lambda>x. \<not> numeric_char x) (c_str (astype_str (StrV (u ''1.234abc'')))) \<and>
   \<not> is_inf_literal (c_str (limpar (astype_str (StrV (u ''1.234abc''))))) \<and>
   normalize_cell rejeita (StrV (u ''1.234abc'')) = Inr 0"
proof -
  have a: "list_ex (\<lambda>x. \<not> numeric_char x) (c_str (astype_str (StrV (u ''1.234abc''))))"
    by (simp add: numeric_char_def isdigit_def c_str_def u_def)
  have b: "\<not> is_inf_literal (c_str (limpar (astype_str (StrV (u ''1.234abc'')))))"
    by (simp add: is_inf_literal_def limpar_def lower_def c_str_def u_def)
  show ?thesis
    using outros_caracteres [of "StrV (u ''1.234abc'')" rejeita] a b by simp
qed

text \<open>
  "-1.234" contains the separator "." and the non-digit "-", and is normalised to 1234,
  not to 0.
\<close>

theorem separador_counterexample:
  "46 \<in> set (u ''-1.234'') \<and> 45 \<in> set (u ''-1.234'') \<and> \<not> isdigit 45 \<and>
   normalize_cell rejeita (StrV (u ''-1.234'')) = Inr 1234"
  by (simp add: normalize_examples(7)) (simp add: u_def isdigit_def)





section \<open>extrair\_etapa: the stage of a description\<close>

lemma contains_occurs: "contains sub s = occurs sub s"
proof (induction s)
  case Nil
  then show ?case by (auto simp: occurs_def)
next
  case (Cons c cs)
  show ?case
  proof
    assume "contains sub (c # cs)"
    then consider "prefix sub (c # cs)" | "contains sub cs" by auto
    then show "occurs sub (c # cs)"
    proof cases
      case 1
      then obtain b where "c # cs = sub @ b" by (auto simp: prefix_def)
      then have "c # cs = [] @ sub @ b" by simp
      then show ?thesis unfolding occurs_def by blast
    next
      case 2
      with Cons.IH obtain a b where "cs = a @ sub @ b" by (auto simp: occurs_def)
      then have "c # cs = (c # a) @ sub @ b" by simp
      then show ?thesis unfolding occurs_def by blast
    qed
  next
    assume "occurs sub (c # cs)"
    then obtain a b where ab: "c # cs = a @ sub @ b" by (auto simp: occurs_def)
    show "contains sub (c # cs)"
    proof (cases a)
      case Nil
      with ab have "prefix sub (c # cs)" by (simp add: prefix_def)
      then show ?thesis by simp
    next
      case (Cons x a')
      with ab have "cs = a' @ sub @ b" by simp
      then have "occurs sub cs" unfolding occurs_def by blast
      with Cons.IH show ?thesis by simp
    qed
  qed
qed

lemma contains_single: "contains [p] s = (p \<in> set s)"
  by (induction s) auto

lemma occurs_single: "occurs [p] s = (p \<in> set s)"
  using contains_single contains_occurs by simp

lemma split_first_single: "split_first [p] s = takeWhile (\<lambda>c. c \<noteq> p) s"
  by (induction s) auto

lemma rfind_after_None: "sep \<noteq> [] \<Longrightarrow> (rfind_after sep s = None) = (\<not> contains sep s)"
  by (induction s) (auto split: option.splits)

lemma rfind_after_Some:
  assumes "sep \<noteq> []" and "rfind_after sep s = Some b"
  shows "\<exists>a. s = a @ sep @ b \<and> (\<forall>a' b'. s = a' @ sep @ b' \<longrightarrow> length a' \<le> length a)"
  using assms(2)
proof (induction s arbitrary: b)
  case Nil
  then show ?case by simp
next
  case (Cons c cs)
  show ?case
  proof (cases "rfind_after sep cs")
    case None
    with Cons.prems have p: "prefix sep (c # cs)" and b: "b = drop (length sep) (c # cs)"
      by (auto split: if_splits)
    from p b have eq: "c # cs = [] @ sep @ b" by (auto simp: prefix_def)
    have "length a' \<le> length ([] :: pystr)" if "c # cs = a' @ sep @ b'" for a' b'
    proof (cases a')
      case Nil
      then show ?thesis by simp
    next
      case (Cons x a'')
      with that have "cs = a'' @ sep @ b'" by simp
      then have "occurs sep cs" unfolding occurs_def by blast
      with None assms(1) show ?thesis by (simp add: rfind_after_None contains_occurs)
    qed
    with eq show ?thesis by blast
  next
    case (Some r)
    with Cons.prems have "b = r" by simp
    with Some Cons.IH obtain a where a: "cs = a @ sep @ b"
      and m: "\<forall>a' b'. cs = a' @ sep @ b' \<longrightarrow> length a' \<le> length a" by blast
    have eq: "c # cs = (c # a) @ sep @ b" using a by simp
    have "length a' \<le> length (c # a)" if "c # cs = a' @ sep @ b'" for a' b'
    proof (cases a')
      case Nil
      then show ?thesis by simp
    next
      case (Cons x a'')
      with that have "cs = a'' @ sep @ b'" by simp
      with m have "length a'' \<le> length a" by blast
      with Cons show ?thesis by simp
    qed
    with eq show ?thesis by blast
  qed
qed

lemma rsplit1_last_none: "sep \<noteq> [] \<Longrightarrow> \<not> occurs sep s \<Longrightarrow> rsplit1_last sep s = s"
  by (simp add: rsplit1_last_def rfind_after_None [symmetric] contains_occurs [symmetric])

lemma rsplit1_last_after:
  assumes "sep \<noteq> []" and "s = a @ sep @ b"
    and "\<forall>a' b'. s = a' @ sep @ b' \<longrightarrow> length a' \<le> length a"
  shows "rsplit1_last sep s = b"
proof -
  have "occurs sep s" using assms(2) unfolding occurs_def by blast
  then obtain r where r: "rfind_after sep s = Some r"
    using rfind_after_None [OF assms(1), of s] by (auto simp: contains_occurs)
  from rfind_after_Some [OF assms(1) r] obtain a0 where a0: "s = a0 @ sep @ r"
    and m0: "\<forall>a' b'. s = a' @ sep @ b' \<longrightarrow> length a' \<le> length a0" by blast
  from assms(2) m0 have "length a \<le> length a0" by blast
  moreover from a0 assms(3) have "length a0 \<le> length a" by blast
  ultimately have "length a = length a0" by simp
  with assms(2) a0 have "b = r" by auto
  with r show ?thesis by (simp add: rsplit1_last_def)
qed

lemma set_strip: "set (strip s) \<subseteq> set s"
proof -
  have "set (dropWhile isspace (rev (dropWhile isspace s))) \<subseteq> set (rev (dropWhile isspace s))"
    by (auto dest: set_dropWhileD)
  also have "\<dots> \<subseteq> set s" by (auto dest: set_dropWhileD)
  finally show ?thesis by (simp add: strip_def)
qed

lemma strip_around:
  assumes "\<not> isspace p"
  shows "strip (pre @ p # post) = dropWhile isspace pre @ p # rev (dropWhile isspace (rev post))"
proof -
  have 1: "dropWhile isspace (pre @ p # post) = dropWhile isspace pre @ p # post"
    using assms by (induction pre) auto
  have 2: "dropWhile isspace (rev post @ p # ys) = dropWhile isspace (rev post) @ p # ys" for ys
    using assms by (induction "rev post" arbitrary: post) (auto simp: dropWhile_append)
  show ?thesis
    by (simp add: strip_def 1 2)
qed

lemma strip_lstrip: "strip (dropWhile isspace s) = strip s"
  by (simp add: strip_def)

lemma takeWhile_until: "p \<notin> set xs \<Longrightarrow> takeWhile (\<lambda>c. c \<noteq> p) (xs @ p # ys) = xs"
  by (induction xs) auto

lemma parte_pipe:
  assumes "p \<notin> set pre" and "\<not> isspace p"
  shows "strip (split_first [p] (strip (pre @ p # post))) = strip pre"
    and "contains [p] (strip (pre @ p # post))"
proof -
  have "p \<notin> set (dropWhile isspace pre)" using assms(1) by (auto dest: set_dropWhileD)
  then have "takeWhile (\<lambda>c. c \<noteq> p) (dropWhile isspace pre @ p # rev (dropWhile isspace (rev post)))
      = dropWhile isspace pre"
    by (rule takeWhile_until)
  then show "strip (split_first [p] (strip (pre @ p # post))) = strip pre"
    by (simp add: split_first_single strip_around [OF assms(2)] strip_lstrip)
  show "contains [p] (strip (pre @ p # post))"
    by (simp add: contains_single strip_around [OF assms(2)])
qed

lemma u_pipe: "u ''|'' = [124]" by (simp add: u_def)

lemma not_isspace_pipe: "\<not> isspace 124" by (simp add: isspace_def)

lemma sep_not_Nil: "u '' - '' \<noteq> []" by (simp add: u_def)

lemma etapa_parte:
  assumes "desc = pre @ u ''|'' @ post" and "\<not> occurs (u ''|'') pre"
  shows "extrair_etapa (StrV desc) =
     (if contains (u '' - '') (strip pre) then strip (rsplit1_last (u '' - '') (strip pre)) else strip pre)"
proof -
  from assms(2) have p: "124 \<notin> set pre" by (simp add: u_pipe occurs_single)
  from assms(1) have d: "desc = pre @ 124 # post" by (simp add: u_pipe)
  show ?thesis
    using parte_pipe [OF p not_isspace_pipe, of post]
    by (simp add: extrair_etapa_def d u_pipe Let_def)
qed

text \<open>
  C3 (as amended). For a text whose first pipe follows \<open>pre\<close>, the stage is taken from
  the part before that pipe, trimmed: when the trimmed part does not contain " - " it is
  returned as it is, otherwise the trimmed piece after its last " - " is returned. In
  particular the stage of "Ens. Fund | EF - 5o Ano" is "Ens. Fund": the part before the
  pipe has no " - ", and what follows the pipe is never read. A missing description (NaN
  or None) gives the empty string.
\<close>

theorem etapa_com_pipe:
  "(desc = pre @ u ''|'' @ post \<and> \<not> occurs (u ''|'') pre \<longrightarrow>
      (\<not> occurs (u '' - '') (strip pre) \<longrightarrow> extrair_etapa (StrV desc) = strip pre) \<and>
      (\<forall>a b. strip pre = a @ u '' - '' @ b \<and>
             (\<forall>a' b'. strip pre = a' @ u '' - '' @ b' \<longrightarrow> length a' \<le> length a) \<longrightarrow>
             extrair_etapa (StrV desc) = strip b)) \<and>
   extrair_etapa (StrV (u ''Ens. Fund | EF - 5'' @ [186] @ u '' Ano'')) = u ''Ens. Fund'' \<and>
   extrair_etapa NaN = [] \<and> extrair_etapa NoneV = []"
proof -
  have general: "(\<not> occurs (u '' - '') (strip pre) \<longrightarrow> extrair_etapa (StrV desc) = strip pre) \<and>
      (\<forall>a b. strip pre = a @ u '' - '' @ b \<and>
             (\<forall>a' b'. strip pre = a' @ u '' - '' @ b' \<longrightarrow> length a' \<le> length a) \<longrightarrow>
             extrair_etapa (StrV desc) = strip b)"
    if h: "desc = pre @ u ''|'' @ post" "\<not> occurs (u ''|'') pre"
  proof (intro conjI impI allI)
    assume "\<not> occurs (u '' - '') (strip pre)"
    then show "extrair_etapa (StrV desc) = strip pre"
      by (simp add: etapa_parte [OF h] contains_occurs)
  next
    fix a b
    assume ab: "strip pre = a @ u '' - '' @ b \<and>
      (\<forall>a' b'. strip pre = a' @ u '' - '' @ b' \<longrightarrow> length a' \<le> length a)"
    then have "occurs (u '' - '') (strip pre)" unfolding occurs_def by blast
    moreover have "rsplit1_last (u '' - '') (strip pre) = b"
      using ab by (intro rsplit1_last_after [OF sep_not_Nil, of _ a]) auto
    ultimately show "extrair_etapa (StrV desc) = strip b"
      by (simp add: etapa_parte [OF h] contains_occurs)
  qed
  have example: "extrair_etapa (StrV (u ''Ens. Fund | EF - 5'' @ [186] @ u '' Ano'')) = u ''Ens. Fund''"
    by (simp add: extrair_etapa_def u_def strip_def isspace_def)
  have missing: "extrair_etapa NaN = [] \<and> extrair_etapa NoneV = []"
    by (simp add: extrair_etapa_def)
  from general example missing show ?thesis by blast
qed

theorem etapa_com_pipe_witness:
  "\<not> occurs (u ''|'') (u ''EF - 5'' @ [186] @ u '' Ano '') \<and>
   strip (u ''EF - 5'' @ [186] @ u '' Ano '') = u ''EF'' @ u '' - '' @ (u ''5'' @ [186] @ u '' Ano'') \<and>
   extrair_etapa (StrV ((u ''EF - 5'' @ [186] @ u '' Ano '') @ u ''|'' @ u '' X'')) = u ''5'' @ [186] @ u '' Ano'' \<and>
   \<not> occurs (u ''|'') (u ''Creche '') \<and>
   \<not> occurs (u '' - '') (strip (u ''Creche '')) \<and>
   extrair_etapa (StrV (u ''Creche '' @ u ''|'' @ u '' EF - 5'')) = u ''Creche''"
proof -
  let ?pre = "u ''EF - 5'' @ [186] @ u '' Ano ''"
  let ?b = "u ''5'' @ [186] @ u '' Ano''"
  have np: "\<not> occurs (u ''|'') ?pre" by (simp add: u_pipe occurs_single) (simp add: u_def)
  have sp: "strip ?pre = u ''EF'' @ u '' - '' @ ?b" by (simp add: strip_def isspace_def u_def)
  have rf: "rfind_after (u '' - '') (strip ?pre) = Some ?b" by (simp add: strip_def isspace_def u_def)
  from rfind_after_Some [OF sep_not_Nil rf] obtain a0 where a0: "strip ?pre = a0 @ u '' - '' @ ?b"
    and m0: "\<forall>a' b'. strip ?pre = a' @ u '' - '' @ b' \<longrightarrow> length a' \<le> length a0" by blast
  from a0 sp have "a0 = u ''EF''" by simp
  with m0 have mx: "\<forall>a' b'. strip ?pre = a' @ u '' - '' @ b' \<longrightarrow> length a' \<le> length (u ''EF'')" by simp
  have sb: "strip ?b = ?b" by (simp add: strip_def isspace_def u_def)
  have r1: "extrair_etapa (StrV (?pre @ u ''|'' @ u '' X'')) = ?b"
    using etapa_com_pipe [of "?pre @ u ''|'' @ u '' X''" ?pre "u '' X''"] np sp mx sb by metis
  have np2: "\<not> occurs (u ''|'') (u ''Creche '')" by (simp add: u_pipe occurs_single) (simp add: u_def)
  have ns2: "\<not> occurs (u '' - '') (strip (u ''Creche ''))"
    by (simp add: contains_occurs [symmetric]) (simp add: strip_def isspace_def u_def)
  have s2: "strip (u ''Creche '') = u ''Creche''" by (simp add: strip_def isspace_def u_def)
  have r2: "extrair_etapa (StrV (u ''Creche '' @ u ''|'' @ u '' EF - 5'')) = u ''Creche''"
    using etapa_com_pipe [of "u ''Creche '' @ u ''|'' @ u '' EF - 5''" "u ''Creche ''" "u '' EF - 5''"] np2 ns2 s2
    by metis
  from np sp r1 np2 ns2 r2 show ?thesis by blast
qed

text \<open>
  The claim's example fails: the stage of "Ens. Fund | EF - 5o Ano" is "Ens. Fund", not
  "5o Ano".
\<close>

theorem etapa_exemplo_counterexample:
  "extrair_etapa (StrV (u ''Ens. Fund | EF - 5'' @ [186] @ u '' Ano'')) = u ''Ens. Fund'' \<and>
   u ''Ens. Fund'' \<noteq> u ''5'' @ [186] @ u '' Ano''"
  by (simp add: extrair_etapa_def u_def strip_def isspace_def)

text \<open>
  C4 (as amended). For a cell that is not missing and whose text has no pipe, the stage
  is "TOTAL SECRETARIA" exactly when the trimmed text equals "TOTAL SECRETARIA" (the
  comparison is case-sensitive and made after \<open>strip\<close>), and "Total escola" otherwise.
\<close>

theorem etapa_sem_pipe:
  "\<not> isna c \<and> \<not> occurs (u ''|'') (astype_str c) \<longrightarrow>
     extrair_etapa c =
       (if strip (astype_str c) = TOTAL_SECRETARIA then TOTAL_SECRETARIA else Total_escola)"
proof (intro impI, elim conjE)
  assume c: "\<not> isna c" and "\<not> occurs (u ''|'') (astype_str c)"
  then have "124 \<notin> set (astype_str c)" by (simp add: u_pipe occurs_single)
  with set_strip have "124 \<notin> set (strip (astype_str c))" by blast
  then have "\<not> contains (u ''|'') (strip (astype_str c))" by (simp add: u_pipe contains_single)
  with c show "extrair_etapa c =
       (if strip (astype_str c) = TOTAL_SECRETARIA then TOTAL_SECRETARIA else Total_escola)"
    by (simp add: extrair_etapa_def Let_def)
qed

theorem etapa_sem_pipe_witness:
  "\<not> isna (StrV (u '' TOTAL SECRETARIA '')) \<and>
   \<not> occurs (u ''|'') (astype_str (StrV (u '' TOTAL SECRETARIA ''))) \<and>
   extrair_etapa (StrV (u '' TOTAL SECRETARIA '')) = TOTAL_SECRETARIA \<and>
   \<not> isna (StrV (u ''Escola Municipal X'')) \<and>
   \<not> occurs (u ''|'') (astype_str (StrV (u ''Escola Municipal X''))) \<and>
   extrair_etapa (StrV (u ''Escola Municipal X'')) = Total_escola \<and>
   \<not> isna (IntV 7) \<and>
   \<not> occurs (u ''|'') (astype_str (IntV 7)) \<and>
   extrair_etapa (IntV 7) = Total_escola"
proof -
  have n1: "\<not> occurs (u ''|'') (astype_str (StrV (u '' TOTAL SECRETARIA '')))"
    by (simp add: u_pipe occurs_single) (simp add: u_def)
  have n2: "\<not> occurs (u ''|'') (astype_str (StrV (u ''Escola Municipal X'')))"
    by (simp add: u_pipe occurs_single) (simp add: u_def)
  have n3: "\<not> occurs (u ''|'') (astype_str (IntV 7))"
    by (simp add: u_pipe occurs_single str_of_int_def str_of_nat.simps)
  have s1: "strip (astype_str (StrV (u '' TOTAL SECRETARIA ''))) = TOTAL_SECRETARIA"
    by (simp add: strip_def isspace_def u_def TOTAL_SECRETARIA_def)
  have s2: "strip (astype_str (StrV (u ''Escola Municipal X''))) \<noteq> TOTAL_SECRETARIA"
    by (simp add: strip_def isspace_def u_def TOTAL_SECRETARIA_def)
  have s3: "strip (astype_str (IntV 7)) \<noteq> TOTAL_SECRETARIA"
    by (simp add: strip_def isspace_def u_def TOTAL_SECRETARIA_def str_of_int_def str_of_nat.simps)
  show ?thesis
    using etapa_sem_pipe [of "StrV (u '' TOTAL SECRETARIA '')"]
      etapa_sem_pipe [of "StrV (u ''Escola Municipal X'')"]
      etapa_sem_pipe [of "IntV 7"] n1 n2 n3 s1 s2 s3
    by simp
qed

text \<open>
  The text " TOTAL SECRETARIA", with a leading blank, differs from "TOTAL SECRETARIA" and
  still gives the stage "TOTAL SECRETARIA": the comparison is made on the trimmed text.
\<close>

theorem etapa_total_counterexample:
  "\<not> occurs (u ''|'') (u '' TOTAL SECRETARIA'') \<and>
   u '' TOTAL SECRETARIA'' \<noteq> u ''TOTAL SECRETARIA'' \<and>
   extrair_etapa (StrV (u '' TOTAL SECRETARIA'')) = u ''TOTAL SECRETARIA''"
proof -
  have "\<not> occurs (u ''|'') (u '' TOTAL SECRETARIA'')"
    by (simp add: u_pipe occurs_single) (simp add: u_def)
  moreover have "u '' TOTAL SECRETARIA'' \<noteq> u ''TOTAL SECRETARIA''" by (simp add: u_def)
  moreover have "extrair_etapa (StrV (u '' TOTAL SECRETARIA'')) = u ''TOTAL SECRETARIA''"
    by (simp add: extrair_etapa_def u_def strip_def isspace_def TOTAL_SECRETARIA_def)
  ultimately show ?thesis by blast
qed

section \<open>carregar\_csv: the loader\<close>


















section \<open>The filters: properties\<close>

lemma replicate_True_map: "replicate (length rs) True = map (\<lambda>r. True) rs"
  by (induction rs) auto

lemma select_mask: "map fst (filter snd (zip rs (map P rs))) = filter P rs"
  by (induction rs) auto

lemma map2_same: "map2 f (map P rs) (map g rs) = map (\<lambda>r. f (P r) (g r)) rs"
  by (induction rs) auto

lemma mask_and_map:
  "col \<in> set (columns df) \<Longrightarrow>
   mask_and df col test (map P (rows df)) = Inr (map (\<lambda>r. P r \<and> test (r col)) (rows df))"
  by (simp add: mask_and_def coluna_def map2_same)

lemma aplicar_filtros_rows:
  assumes "Municipio \<in> set (columns df)" "Etapa \<in> set (columns df)" "Status \<in> set (columns df)"
  shows "aplicar_filtros df m es ss =
     Inr (df\<lparr>rows := filter (\<lambda>r. (m = StrV Todos_os_Municipios \<or> cell_eq (r Municipio) m) \<and>
                                  (es = [] \<or> isin es (r Etapa)) \<and>
                                  (ss = [] \<or> isin ss (r Status))) (rows df)\<rparr>)"
  using assms
  by (simp add: aplicar_filtros_def replicate_True_map mask_and_map select_mask)

lemma aplicar_filtros_none: "aplicar_filtros df (StrV Todos_os_Municipios) [] [] = Inr df"
  by (simp add: aplicar_filtros_def replicate_True_map select_mask)

text \<open>
  C6. With the entry "Todos os Municipios" selected and no stage and no status selected,
  the filters return the table itself: the same rows in the same order. More generally,
  on a table that has the three columns, the rows kept are exactly those that pass every
  active constraint, where the municipality constraint is inactive for the entry
  "Todos os Municipios" and a membership constraint is inactive for the empty selection:
  an inactive constraint restricts nothing.
\<close>

theorem filtros_identidade:
  "aplicar_filtros df (StrV Todos_os_Municipios) [] [] = Inr df \<and>
   (Municipio \<in> set (columns df) \<and> Etapa \<in> set (columns df) \<and> Status \<in> set (columns df) \<longrightarrow>
    aplicar_filtros df m es ss =
      Inr (df\<lparr>rows := filter (\<lambda>r. (m = StrV Todos_os_Municipios \<or> cell_eq (r Municipio) m) \<and>
                                   (es = [] \<or> isin es (r Etapa)) \<and>
                                   (ss = [] \<or> isin ss (r Status))) (rows df)\<rparr>))"
  using aplicar_filtros_none aplicar_filtros_rows by blast

theorem filtros_identidade_witness:
  "aplicar_filtros tabela_cenario (StrV Todos_os_Municipios) [] [] = Inr tabela_cenario \<and>
   Municipio \<in> set (columns (tabela_cenario\<lparr>columns := columns tabela_cenario @ [Etapa]\<rparr>)) \<and>
   Etapa \<in> set (columns (tabela_cenario\<lparr>columns := columns tabela_cenario @ [Etapa]\<rparr>)) \<and>
   Status \<in> set (columns (tabela_cenario\<lparr>columns := columns tabela_cenario @ [Etapa]\<rparr>)) \<and>
   aplicar_filtros (tabela_cenario\<lparr>columns := columns tabela_cenario @ [Etapa]\<rparr>)
       (StrV (u ''Y'')) [] [StrV (u ''Normal'')] =
     Inr (tabela_cenario\<lparr>columns := columns tabela_cenario @ [Etapa]\<rparr>) \<and>
   aplicar_filtros (tabela_cenario\<lparr>columns := columns tabela_cenario @ [Etapa]\<rparr>)
       (StrV (u ''Z'')) [] [] =
     Inr (tabela_cenario\<lparr>columns := columns tabela_cenario @ [Etapa], rows := []\<rparr>)"
proof -
  let ?df = "tabela_cenario\<lparr>columns := columns tabela_cenario @ [Etapa]\<rparr>"
  have cols: "Municipio \<in> set (columns ?df) \<and> Etapa \<in> set (columns ?df) \<and> Status \<in> set (columns ?df)"
    by (simp add: tabela_cenario_def)
  have keep: "aplicar_filtros ?df (StrV (u ''Y'')) [] [StrV (u ''Normal'')] = Inr ?df"
    using filtros_identidade [of ?df "StrV (u ''Y'')" "[]" "[StrV (u ''Normal'')]"] cols
    by (simp add: tabela_cenario_def linha_cenario_def cell_eq_def isin_def column_names literals)
  have drop: "aplicar_filtros ?df (StrV (u ''Z'')) [] [] = Inr (?df\<lparr>rows := []\<rparr>)"
    using filtros_identidade [of ?df "StrV (u ''Z'')" "[]" "[]"] cols
    by (simp add: tabela_cenario_def linha_cenario_def cell_eq_def isin_def column_names literals)
  show ?thesis
    using filtros_identidade [of tabela_cenario] cols keep drop by simp
qed

section \<open>The end-to-end scenario\<close>








section \<open>gerar\_xlsx\_por\_municipio: the entries of the archive\<close>












text \<open>
  Outside that data model, municipalities that \<open>pd.read_csv\<close> delivers as integers are
  sorted by value: the entry 9.xlsx comes before 10.xlsx.
\<close>

lemma entradas_codigos:
  "map fst (case gerar_xlsx_por_municipio env_exemplo tabela_codigos [] of
              Inr es \<Rightarrow> es | Inl err \<Rightarrow> []) = [u ''9.xlsx'', u ''10.xlsx''] \<and>
   u ''10.xlsx'' < u ''9.xlsx''"
  by (simp add: gerar_xlsx_por_municipio_def coluna_def tabela_codigos_def Municipio_def Status_def
      unique_def dropna_def sorted_cells_def u_def comp_def str_of_int_def str_of_nat.simps)

section \<open>gerar\_xlsx: what the workbook depends on\<close>





end
